theory Spec2Isabelle
  imports Complex_Main "HOL-Library.Log_Nat" "HOL-Library.Multiset"
begin

section \<open>Data model of \<^verbatim>\<open>main.go\<close>\<close>

text \<open>
  The JSON-decoded response structs of \<^verbatim>\<open>main.go\<close> (lines 36 to 67), one record
  per Go struct, one field per Go field, slices as lists.
\<close>

record version =
  ID :: string

record episode =
  Versions :: "version list"

record iblEpisodesResponse =
  Episodes :: "episode list"

record playlisterSegment =
  RecordID :: string

record playlisterResponse =
  Segments :: "playlisterSegment list"

record externalLink =
  Type :: string
  Value :: string

record musicData =
  ExternalLinks :: "externalLink list"

record musicResponse =
  Data :: musicData

section \<open>Floating point\<close>

text \<open>
  Go's \<^verbatim>\<open>float32\<close> and \<^verbatim>\<open>float64\<close> are the IEEE 754 binary formats. A value is
  a NaN, an infinity with its sign, or a finite number with its sign bit (\<open>True\<close>:
  negative) and its magnitude, a rational; the two zeros are \<open>Finite False 0\<close> and
  \<open>Finite True 0\<close>. Every \<^verbatim>\<open>float32\<close> operation is the exact operation on the
  rationals followed by one rounding to the nearest \<^verbatim>\<open>float32\<close>, ties to the even
  significand (the code has no expression of the shape \<^verbatim>\<open>x*y + z\<close>, so no
  operation can be fused).
\<close>

datatype ieee =
  NaN
  | Infinity bool
  | Finite bool rat

type_synonym float32 = ieee
type_synonym float64 = ieee

definition pow2 :: "int \<Rightarrow> rat" where
  "pow2 e = (if 0 \<le> e then 2 ^ nat e else 1 / 2 ^ nat (- e))"

text \<open>\<open>flog2 m\<close> is the exponent \<open>e\<close> with \<open>2^e \<le> m < 2^(e+1)\<close>, for \<open>m > 0\<close>.\<close>

definition flog2 :: "rat \<Rightarrow> int" where
  "flog2 m =
     (let (p, q) = quotient_of m;
          d = bitlen p - bitlen q
      in if pow2 d \<le> m then d else d - 1)"

text \<open>Rounding a rational to the nearest integer, a tie to the even one.\<close>

definition rne :: "rat \<Rightarrow> int" where
  "rne x =
     (let k = \<lfloor>x\<rfloor>; f = x - of_int k
      in if f < 1 / 2 then k
         else if 1 / 2 < f then k + 1
         else if even k then k else k + 1)"

text \<open>
  Rounding a magnitude to binary32: 24 bits of significand, the least exponent
  \<open>- 126\<close> (below it the spacing stays \<open>2^(- 149)\<close>: the subnormal numbers), and
  overflow (\<open>None\<close>) when the rounded magnitude reaches \<open>2^128\<close>.
\<close>

definition round32 :: "rat \<Rightarrow> rat option" where
  "round32 m =
     (if m = 0 then Some 0
      else let e = max (flog2 m) (- 126);
               q = pow2 (e - 23);
               r = of_int (rne (m / q)) * q
           in if pow2 128 \<le> r then None else Some r)"

definition mk32 :: "bool \<Rightarrow> rat \<Rightarrow> float32" where
  "mk32 s m = (case round32 m of None \<Rightarrow> Infinity s | Some r \<Rightarrow> Finite s r)"

definition signed :: "bool \<Rightarrow> rat \<Rightarrow> rat" where
  "signed s m = (if s then - m else m)"

text \<open>A constant of the source that \<^verbatim>\<open>float32\<close> holds exactly: 0, 0.5, 5, 30, 120.\<close>

definition f32_const :: "rat \<Rightarrow> float32" where
  "f32_const c = Finite False c"

fun f32_add :: "float32 \<Rightarrow> float32 \<Rightarrow> float32" where
  "f32_add NaN y = NaN"
| "f32_add x NaN = NaN"
| "f32_add (Infinity s) (Infinity t) = (if s = t then Infinity s else NaN)"
| "f32_add (Infinity s) (Finite t n) = Infinity s"
| "f32_add (Finite s m) (Infinity t) = Infinity t"
| "f32_add (Finite s m) (Finite t n) =
     (let r = signed s m + signed t n
      in if r = 0 then Finite (s \<and> t) 0 else mk32 (r < 0) \<bar>r\<bar>)"

fun f32_neg :: "float32 \<Rightarrow> float32" where
  "f32_neg NaN = NaN"
| "f32_neg (Infinity s) = Infinity (\<not> s)"
| "f32_neg (Finite s m) = Finite (\<not> s) m"

definition f32_sub :: "float32 \<Rightarrow> float32 \<Rightarrow> float32" where
  "f32_sub x y = f32_add x (f32_neg y)"

fun f32_mul :: "float32 \<Rightarrow> float32 \<Rightarrow> float32" where
  "f32_mul NaN y = NaN"
| "f32_mul x NaN = NaN"
| "f32_mul (Infinity s) (Infinity t) = Infinity (s \<noteq> t)"
| "f32_mul (Infinity s) (Finite t n) = (if n = 0 then NaN else Infinity (s \<noteq> t))"
| "f32_mul (Finite s m) (Infinity t) = (if m = 0 then NaN else Infinity (s \<noteq> t))"
| "f32_mul (Finite s m) (Finite t n) = mk32 (s \<noteq> t) (m * n)"

fun f32_div :: "float32 \<Rightarrow> float32 \<Rightarrow> float32" where
  "f32_div NaN y = NaN"
| "f32_div x NaN = NaN"
| "f32_div (Infinity s) (Infinity t) = NaN"
| "f32_div (Infinity s) (Finite t n) = Infinity (s \<noteq> t)"
| "f32_div (Finite s m) (Infinity t) = Finite (s \<noteq> t) 0"
| "f32_div (Finite s m) (Finite t n) =
     (if n = 0 then (if m = 0 then NaN else Infinity (s \<noteq> t))
      else mk32 (s \<noteq> t) (m / n))"

text \<open>The conversions \<^verbatim>\<open>float32(x)\<close> of a \<^verbatim>\<open>float64\<close> and of an \<^verbatim>\<open>int\<close> (a length).\<close>

fun float32_of_float64 :: "float64 \<Rightarrow> float32" where
  "float32_of_float64 NaN = NaN"
| "float32_of_float64 (Infinity s) = Infinity s"
| "float32_of_float64 (Finite s m) = mk32 s m"

definition float32_of_int :: "nat \<Rightarrow> float32" where
  "float32_of_int n = mk32 False (of_nat n)"

text \<open>\<^verbatim>\<open>math.IsNaN(float64(x))\<close>: widening keeps a NaN a NaN and a number a number.\<close>

definition math_IsNaN :: "ieee \<Rightarrow> bool" where
  "math_IsNaN x = (x = NaN)"

definition is_finite :: "ieee \<Rightarrow> bool" where
  "is_finite x = (case x of Finite s m \<Rightarrow> True | _ \<Rightarrow> False)"

section \<open>Audio metrics and moods\<close>

text \<open>
  Modelled from the spec: the struct types \<^verbatim>\<open>spotify.AudioFeatures\<close> and
  \<^verbatim>\<open>spotify.AudioAnalysis\<close> belong to the client library the code imports, which is
  not part of the source tree. The records have the fields \<^verbatim>\<open>getMood\<close> reads (section
  3 of the specification, AudioMetrics): five \<^verbatim>\<open>float32\<close> features and the tempo of
  the analysis' track summary, which the code converts with \<^verbatim>\<open>float32(...)\<close>.
\<close>

record AudioFeatures =
  Valence :: float32
  Danceability :: float32
  Energy :: float32
  Liveness :: float32
  Loudness :: float32

record AnalysisTrack =
  Tempo :: float64

record AudioAnalysis =
  Track :: AnalysisTrack

record spotifyTrackData =
  Features :: AudioFeatures
  Analysis :: AudioAnalysis

record mood =
  ChillFactor :: float32
  HappinessFactor :: float32

subsection \<open>How the process can stop\<close>

text \<open>
  \<^verbatim>\<open>returnError\<close> (lines 232 to 239) prints the JSON object \<^verbatim>\<open>{"error": message}\<close> and
  calls \<^verbatim>\<open>os.Exit(1)\<close>; \<^verbatim>\<open>log.Fatal\<close> (line 149) exits with status 1 as well, after
  logging to standard error; an index out of range and a nil dereference are run-time
  panics of Go, which end the process with a stack trace and status 2. Each of them is
  a value: a function that can stop the process returns \<open>halt + 'a\<close>.
\<close>

datatype panic =
  IndexOutOfRange nat nat
  | NilDereference

datatype halt =
  ReturnError string
  | LogFatal
  | Panic panic

definition and_then :: "halt + 'a \<Rightarrow> ('a \<Rightarrow> halt + 'b) \<Rightarrow> halt + 'b" where
  "and_then r f = (case r of Inl h \<Rightarrow> Inl h | Inr x \<Rightarrow> f x)"

text \<open>
  The error values the code creates with \<^verbatim>\<open>errors.New\<close> (lines 136 and 139) and the
  message of line 275, under the names the specification gives them.
\<close>

definition NotFound :: string where
  "NotFound = ''Episode not found''"

definition NoVersion :: string where
  "NoVersion = ''No Version available''"

definition NoMoodData :: string where
  "NoMoodData = ''No mood data available''"

subsection \<open>The world outside the process\<close>

text \<open>
  Every collaborator is a field of the record \<open>world\<close>: the command line; what the
  configuration loader does (\<open>None\<close>: a complete configuration; \<open>Some m\<close>:
  \<^verbatim>\<open>getConfiguration\<close> calls \<^verbatim>\<open>returnError(m)\<close>); what each HTTP GET answers for an
  identifier (\<open>None\<close>: the transport failed, \<open>Some r\<close>: the struct that
  \<^verbatim>\<open>json.Unmarshal\<close> filled from the body; a body that does not parse leaves the struct
  at its zero value, an empty slice); whether the key pair loads; the error of the
  token request, if any; and the first results of \<^verbatim>\<open>GetAudioFeatures\<close> (a slice of
  pointers) and \<^verbatim>\<open>GetAudioAnalysis\<close> (a pointer) for a track. The code discards the
  error results of these two calls (lines 188 and 189); a call that fails returns
  \<^verbatim>\<open>nil\<close>, the empty list or \<open>None\<close> here.
\<close>

record world =
  args :: "string list"
  config_error :: "string option"
  ibl :: "string \<Rightarrow> iblEpisodesResponse option"
  playlister :: "string \<Rightarrow> playlisterResponse option"
  keypair_ok :: bool
  music :: "string \<Rightarrow> musicResponse option"
  token_error :: "string option"
  GetAudioFeatures :: "string \<Rightarrow> AudioFeatures option list"
  GetAudioAnalysis :: "string \<Rightarrow> AudioAnalysis option"

definition getConfiguration :: "world \<Rightarrow> halt + unit" where
  "getConfiguration w =
     (case config_error w of Some m \<Rightarrow> Inl (ReturnError m) | None \<Rightarrow> Inr ())"

section \<open>VersionResolver: \<^verbatim>\<open>getVersionID\<close>\<close>

text \<open>
  Lines 122 to 142. Go returns the pair \<^verbatim>\<open>(string, error)\<close>; the model returns the
  same pair, the error as an option (\<open>None\<close> is Go's \<^verbatim>\<open>nil\<close>).
\<close>

definition getVersionID :: "world \<Rightarrow> string \<Rightarrow> halt + (string \<times> string option)" where
  "getVersionID w episodeID =
     and_then (getConfiguration w) (\<lambda>_.
       case ibl w episodeID of
         None \<Rightarrow> Inl (ReturnError ''Failed to get Episode Information'')
       | Some epResp1 \<Rightarrow>
           if length (Episodes epResp1) < 1 then Inr (''nil'', Some ''Episode not found'')
           else if length (Versions (Episodes epResp1 ! 0)) < 1
             then Inr (''nil'', Some ''No Version available'')
           else Inr (ID (Versions (Episodes epResp1 ! 0) ! 0), None))"

section \<open>RecordResolver: \<^verbatim>\<open>getRecordIDs\<close>\<close>

text \<open>
  Lines 113 to 117: the loop appends each segment's record ID to \<^verbatim>\<open>recordIds\<close>,
  which starts as the nil slice.
\<close>

fun recordIds_loop :: "playlisterSegment list \<Rightarrow> string list \<Rightarrow> string list" where
  "recordIds_loop [] recordIds = recordIds"
| "recordIds_loop (segment # rest) recordIds = recordIds_loop rest (recordIds @ [RecordID segment])"

definition getRecordIDs :: "world \<Rightarrow> string \<Rightarrow> halt + string list" where
  "getRecordIDs w versionID =
     and_then (getConfiguration w) (\<lambda>_.
       case playlister w versionID of
         None \<Rightarrow> Inl (ReturnError ''Failed to get Record IDs'')
       | Some res \<Rightarrow> Inr (recordIds_loop (Segments res) []))"

section \<open>LinkResolver: \<^verbatim>\<open>getExternalLinks\<close>\<close>

definition getExternalLinks :: "world \<Rightarrow> string \<Rightarrow> halt + externalLink list" where
  "getExternalLinks w recordID =
     and_then (getConfiguration w) (\<lambda>_.
       if \<not> keypair_ok w then Inl LogFatal
       else case music w recordID of
         None \<Rightarrow> Inl (ReturnError ''Failed to get External Links'')
       | Some musResp1 \<Rightarrow> Inr (ExternalLinks (Data musResp1)))"

text \<open>Lines 252 to 258 of \<^verbatim>\<open>main\<close>: the links of every record, in record order.\<close>

fun main_externalLinks ::
  "world \<Rightarrow> string list \<Rightarrow> externalLink list \<Rightarrow> halt + externalLink list" where
  "main_externalLinks w [] externalLinks = Inr externalLinks"
| "main_externalLinks w (recordID # rest) externalLinks =
     and_then (getExternalLinks w recordID) (\<lambda>externalLinksForRecord.
       main_externalLinks w rest (externalLinks @ externalLinksForRecord))"

section \<open>TrackSelector: lines 260 to 268 of \<^verbatim>\<open>main\<close>\<close>

text \<open>
  \<^verbatim>\<open>strings.Split(s, ":")\<close>: the substrings between the separators; a string without a
  separator is the only element of the result, the empty string included. The
  separator of the source is the one-byte string \<^verbatim>\<open>":"\<close>, so the model splits at a
  character.
\<close>

fun strings_Split :: "string \<Rightarrow> char \<Rightarrow> string list" where
  "strings_Split [] sep = [[]]"
| "strings_Split (c # cs) sep =
     (if c = sep then [] # strings_Split cs sep
      else (case strings_Split cs sep of
              [] \<Rightarrow> [[c]]
            | seg # segs \<Rightarrow> (c # seg) # segs))"

text \<open>
  The loop of lines 262 to 268. \<^verbatim>\<open>spotifyIDSegments[2]\<close> is an unchecked index: with
  fewer than three segments Go panics with \<^verbatim>\<open>index out of range [2] with length n\<close>.
\<close>

fun main_spotifyIDs :: "externalLink list \<Rightarrow> string list \<Rightarrow> halt + string list" where
  "main_spotifyIDs [] spotifyIDs = Inr spotifyIDs"
| "main_spotifyIDs (externalLink # rest) spotifyIDs =
     (if Type externalLink = ''SPOTIFY'' then
        (let spotifyIDSegments = strings_Split (Value externalLink) (CHR '':'') in
         if 2 < length spotifyIDSegments
         then main_spotifyIDs rest (spotifyIDs @ [spotifyIDSegments ! 2])
         else Inl (Panic (IndexOutOfRange 2 (length spotifyIDSegments))))
      else main_spotifyIDs rest spotifyIDs)"

section \<open>MoodAggregator: \<^verbatim>\<open>getSpotifyData\<close> and \<^verbatim>\<open>getMood\<close>\<close>

text \<open>
  The loop of lines 187 to 197. The composite literal dereferences
  \<^verbatim>\<open>analysisPointer\<close>, then indexes \<^verbatim>\<open>featurePointer\<close> at 0 and dereferences the
  element: a nil pointer or an empty slice is a run-time panic.
\<close>

fun tracks_loop :: "world \<Rightarrow> string list \<Rightarrow> spotifyTrackData list \<Rightarrow> halt + spotifyTrackData list" where
  "tracks_loop w [] tracks = Inr tracks"
| "tracks_loop w (trackID # rest) tracks =
     (let featurePointer = GetAudioFeatures w trackID;
          analysisPointer = GetAudioAnalysis w trackID
      in case analysisPointer of
           None \<Rightarrow> Inl (Panic NilDereference)
         | Some analysis \<Rightarrow>
             (case featurePointer of
                [] \<Rightarrow> Inl (Panic (IndexOutOfRange 0 0))
              | None # _ \<Rightarrow> Inl (Panic NilDereference)
              | Some features # _ \<Rightarrow>
                  tracks_loop w rest (tracks @ [\<lparr>Features = features, Analysis = analysis\<rparr>])))"

definition getSpotifyData :: "world \<Rightarrow> string list \<Rightarrow> halt + spotifyTrackData list" where
  "getSpotifyData w trackIDs =
     and_then (getConfiguration w) (\<lambda>_.
       case token_error w of
         Some err \<Rightarrow> Inl (ReturnError (''couldn't get token: '' @ err))
       | None \<Rightarrow> tracks_loop w trackIDs [])"

text \<open>Lines 205 to 216: one mood per track, appended to \<^verbatim>\<open>moods\<close>.\<close>

fun moods_loop :: "spotifyTrackData list \<Rightarrow> mood list \<Rightarrow> mood list" where
  "moods_loop [] moods = moods"
| "moods_loop (track # rest) moods =
     (let trackAnalysis = Track (Analysis track);
          trackFeatures = Features track;
          happiness =
            f32_mul (f32_mul (f32_const 5) (f32_sub (Valence trackFeatures) (f32_const (1 / 2))))
                    (f32_mul (f32_mul (Danceability trackFeatures) (Energy trackFeatures))
                             (Liveness trackFeatures));
          chillFactor =
            f32_mul (f32_div (float32_of_float64 (Tempo trackAnalysis)) (f32_const 120))
                    (f32_div (f32_add (Loudness trackFeatures) (f32_const 30)) (f32_const 30))
      in moods_loop rest (moods @ [\<lparr>ChillFactor = chillFactor, HappinessFactor = happiness\<rparr>]))"

text \<open>Lines 217 to 222: the two running totals, each starting at 0.\<close>

fun totals_loop :: "mood list \<Rightarrow> float32 \<times> float32 \<Rightarrow> float32 \<times> float32" where
  "totals_loop [] totals = totals"
| "totals_loop (m # rest) (totalHappiness, totalChillFactor) =
     totals_loop rest
       (f32_add totalHappiness (HappinessFactor m), f32_add totalChillFactor (ChillFactor m))"

definition getMood :: "spotifyTrackData list \<Rightarrow> mood" where
  "getMood tracks =
     (let moods = moods_loop tracks [];
          (totalHappiness, totalChillFactor) = totals_loop moods (f32_const 0, f32_const 0);
          totalMoods = float32_of_int (length moods)
      in \<lparr>ChillFactor = f32_div totalChillFactor totalMoods,
          HappinessFactor = f32_div totalHappiness totalMoods\<rparr>)"

section \<open>The end of \<^verbatim>\<open>main\<close>\<close>

text \<open>
  What the process writes to standard output when it returns from \<^verbatim>\<open>main\<close>: the
  line \<^verbatim>\<open>{"chillFactor":c,"happinessFactor":h}\<close>, written \<open>MoodObject c h\<close>, or an empty
  line. \<^verbatim>\<open>json.Marshal\<close> of package \<^verbatim>\<open>encoding/json\<close> encodes the fields of the
  struct in their order; for a floating-point value that is a NaN or an infinity it
  returns no bytes and an \<^verbatim>\<open>UnsupportedValueError\<close>. The code drops that error (line
  272), and \<^verbatim>\<open>string(moodJSON)\<close> of no bytes is the empty string.
\<close>

datatype stdout =
  MoodObject float32 float32
  | EmptyLine

definition json_Marshal :: "mood \<Rightarrow> stdout" where
  "json_Marshal m =
     (if is_finite (ChillFactor m) \<and> is_finite (HappinessFactor m)
      then MoodObject (ChillFactor m) (HappinessFactor m)
      else EmptyLine)"

text \<open>Lines 272 to 277.\<close>

definition main_report :: "mood \<Rightarrow> halt + stdout" where
  "main_report mood =
     (let moodJSON = json_Marshal mood
      in if math_IsNaN (ChillFactor mood) then Inl (ReturnError ''No mood data available'')
         else Inr moodJSON)"

definition main :: "world \<Rightarrow> halt + stdout" where
  "main w =
     (if length (args w) \<noteq> 2 then Inl (ReturnError ''Invalid number of arguments'')
      else
        let episodeID = args w ! 1 in
        and_then (getVersionID w episodeID) (\<lambda>(versionID, err).
          case err of
            Some e \<Rightarrow> Inl (ReturnError e)
          | None \<Rightarrow>
              and_then (getRecordIDs w versionID) (\<lambda>recordIDs.
              and_then (main_externalLinks w recordIDs []) (\<lambda>externalLinks.
              and_then (main_spotifyIDs externalLinks []) (\<lambda>spotifyIDs.
              and_then (getSpotifyData w spotifyIDs) (\<lambda>spotifyFeatures.
              main_report (getMood spotifyFeatures)))))))"

section \<open>Example inputs\<close>

text \<open>
  The end-to-end scenario of the specification (section 8): one episode with the
  version \<^verbatim>\<open>vpid1\<close>, one record \<^verbatim>\<open>rec1\<close>, one link \<^verbatim>\<open>spotify:track:tid1\<close>, the
  features 0.8, 0.6, 0.7, 0.5 and -10, each decoded to the nearest \<^verbatim>\<open>float32\<close>, and the
  tempo 130. The episode \<^verbatim>\<open>epid0\<close> is unknown to the lookup service (no episodes),
  \<^verbatim>\<open>epid2\<close> has an episode without versions.
\<close>

definition scenario_features :: AudioFeatures where
  "scenario_features =
     \<lparr>Valence = mk32 False (8 / 10), Danceability = mk32 False (6 / 10),
      Energy = mk32 False (7 / 10), Liveness = mk32 False (5 / 10),
      Loudness = mk32 True 10\<rparr>"

definition scenario :: world where
  "scenario =
     \<lparr>args = [''episode-music-mood'', ''epid1''],
      config_error = None,
      ibl = (\<lambda>e. if e = ''epid1'' then Some \<lparr>Episodes = [\<lparr>Versions = [\<lparr>ID = ''vpid1''\<rparr>]\<rparr>]\<rparr>
                  else if e = ''epid0'' then Some \<lparr>Episodes = []\<rparr>
                  else if e = ''epid2'' then Some \<lparr>Episodes = [\<lparr>Versions = []\<rparr>]\<rparr>
                  else None),
      playlister = (\<lambda>v. if v = ''vpid1'' then Some \<lparr>Segments = [\<lparr>RecordID = ''rec1''\<rparr>]\<rparr>
                         else None),
      keypair_ok = True,
      music = (\<lambda>r. if r = ''rec1''
                    then Some \<lparr>Data = \<lparr>ExternalLinks =
                           [\<lparr>Type = ''SPOTIFY'', Value = ''spotify:track:tid1''\<rparr>]\<rparr>\<rparr>
                    else None),
      token_error = None,
      GetAudioFeatures = (\<lambda>t. if t = ''tid1'' then [Some scenario_features] else []),
      GetAudioAnalysis = (\<lambda>t. if t = ''tid1'' then Some \<lparr>Track = \<lparr>Tempo = Finite False 130\<rparr>\<rparr>
                               else None)\<rparr>"

text \<open>
  Links as the metadata service can send them: two for the same track, one whose
  type is written in lower case, one of another service, and one \<^verbatim>\<open>SPOTIFY\<close> link
  whose value has two segments only.
\<close>

definition example_links :: "externalLink list" where
  "example_links =
     [\<lparr>Type = ''SPOTIFY'', Value = ''spotify:track:tid1''\<rparr>,
      \<lparr>Type = ''spotify'', Value = ''spotify:track:tid2''\<rparr>,
      \<lparr>Type = ''MUSICBRAINZ'', Value = ''0383dadf''\<rparr>,
      \<lparr>Type = ''SPOTIFY'', Value = ''spotify:track:tid1:extra''\<rparr>]"

definition malformed_link :: externalLink where
  "malformed_link = \<lparr>Type = ''SPOTIFY'', Value = ''spotify:track''\<rparr>"

text \<open>
  The scenario with a second track \<^verbatim>\<open>tid2\<close> whose audio features arrive and whose
  audio analysis fails: \<^verbatim>\<open>GetAudioAnalysis\<close> returns a nil pointer and an error.
\<close>

definition scenario_analysis_fails :: world where
  "scenario_analysis_fails =
     scenario\<lparr>GetAudioFeatures :=
                (\<lambda>t. if t = ''tid1'' \<or> t = ''tid2'' then [Some scenario_features] else [])\<rparr>"

text \<open>
  A track whose danceability and energy are \<open>2^100\<close> each, so that their product
  overflows \<^verbatim>\<open>float32\<close>, and whose valence is 0.5; its tempo is 120 and its loudness 0.
\<close>

definition overflowing_track :: spotifyTrackData where
  "overflowing_track =
     \<lparr>Features =
        \<lparr>Valence = Finite False (1 / 2), Danceability = Finite False (2 ^ 100),
         Energy = Finite False (2 ^ 100), Liveness = Finite False 1,
         Loudness = Finite False 0\<rparr>,
      Analysis = \<lparr>Track = \<lparr>Tempo = Finite False 120\<rparr>\<rparr>\<rparr>"

text \<open>
  Three tracks that differ in their loudness (-5, -8 and -6 dB); tempo 90, valence
  0.75, danceability 0.5, energy 0.5, liveness 0.25.
\<close>

definition track_with_loudness :: "rat \<Rightarrow> spotifyTrackData" where
  "track_with_loudness dB =
     \<lparr>Features =
        \<lparr>Valence = Finite False (3 / 4), Danceability = Finite False (1 / 2),
         Energy = Finite False (1 / 2), Liveness = Finite False (1 / 4),
         Loudness = Finite True dB\<rparr>,
      Analysis = \<lparr>Track = \<lparr>Tempo = Finite False 90\<rparr>\<rparr>\<rparr>"

section \<open>The formulas of the specification\<close>

text \<open>
  Section 4.5 c of the specification, read in \<^verbatim>\<open>float32\<close> arithmetic, products and
  quotients grouped from the left as written:
  \<^verbatim>\<open>happiness = 5 * (valence - 0.5) * (danceability * energy * liveness)\<close> and
  \<^verbatim>\<open>chillFactor = (tempo / 120) * ((loudness + 30) / 30)\<close>.
\<close>

definition spec_happiness :: "float32 \<Rightarrow> float32 \<Rightarrow> float32 \<Rightarrow> float32 \<Rightarrow> float32" where
  "spec_happiness valence danceability energy liveness =
     f32_mul (f32_mul (f32_const 5) (f32_sub valence (f32_const (1 / 2))))
             (f32_mul (f32_mul danceability energy) liveness)"

definition spec_chillFactor :: "float32 \<Rightarrow> float32 \<Rightarrow> float32" where
  "spec_chillFactor tempo loudness =
     f32_mul (f32_div tempo (f32_const 120))
             (f32_div (f32_add loudness (f32_const 30)) (f32_const 30))"

definition spec_mood :: "spotifyTrackData \<Rightarrow> mood" where
  "spec_mood track =
     \<lparr>ChillFactor =
        spec_chillFactor (float32_of_float64 (Tempo (Track (Analysis track))))
                         (Loudness (Features track)),
      HappinessFactor =
        spec_happiness (Valence (Features track)) (Danceability (Features track))
                       (Energy (Features track)) (Liveness (Features track))\<rparr>"

section \<open>Properties of the resolvers\<close>

lemma recordIds_loop_map:
  "recordIds_loop segs acc = acc @ map RecordID segs"
  by (induction segs arbitrary: acc) simp_all

text \<open>
  Claim C6. When the lookup for an episode ID answers with at least one episode
  whose first episode has at least one version, \<^verbatim>\<open>getVersionID\<close> returns the ID of the
  first version of the first episode, with a nil error, whatever episodes and
  versions follow the first.
\<close>

theorem getVersionID_first_version:
  assumes "config_error w = None"
    and "ibl w episodeID = Some epResp1"
    and "Episodes epResp1 \<noteq> []"
    and "Versions (hd (Episodes epResp1)) \<noteq> []"
  shows "getVersionID w episodeID = Inr (ID (hd (Versions (hd (Episodes epResp1)))), None)"
  using assms
  by (simp add: getVersionID_def getConfiguration_def and_then_def hd_conv_nth)

theorem getVersionID_first_version_witness:
  "config_error scenario = None
   \<and> ibl scenario ''epid1'' = Some \<lparr>Episodes = [\<lparr>Versions = [\<lparr>ID = ''vpid1''\<rparr>]\<rparr>]\<rparr>
   \<and> getVersionID scenario ''epid1'' = Inr (''vpid1'', None)"
  using getVersionID_first_version
    [of scenario "''epid1''" "\<lparr>Episodes = [\<lparr>Versions = [\<lparr>ID = ''vpid1''\<rparr>]\<rparr>]\<rparr>"]
  by (simp add: scenario_def)

text \<open>
  Claim C7. Given a lookup response, \<^verbatim>\<open>getVersionID\<close> returns the error \<open>NotFound\<close>
  (\<^verbatim>\<open>Episode not found\<close>) exactly when the episode list is empty, and the error
  \<open>NoVersion\<close> (\<^verbatim>\<open>No Version available\<close>) exactly when the list is not empty and its
  first episode has no versions.
\<close>

theorem getVersionID_errors:
  assumes "config_error w = None"
    and "ibl w episodeID = Some epResp1"
  shows "((\<exists>s. getVersionID w episodeID = Inr (s, Some NotFound)) \<longleftrightarrow> Episodes epResp1 = [])
       \<and> ((\<exists>s. getVersionID w episodeID = Inr (s, Some NoVersion))
            \<longleftrightarrow> (Episodes epResp1 \<noteq> [] \<and> Versions (hd (Episodes epResp1)) = []))"
  using assms
  by (auto simp add: getVersionID_def getConfiguration_def and_then_def hd_conv_nth
        NotFound_def NoVersion_def)

theorem getVersionID_errors_witness:
  "config_error scenario = None
   \<and> ibl scenario ''epid0'' = Some \<lparr>Episodes = []\<rparr>
   \<and> getVersionID scenario ''epid0'' = Inr (''nil'', Some NotFound)
   \<and> getVersionID scenario ''epid2'' = Inr (''nil'', Some NoVersion)"
proof -
  have c: "config_error scenario = None"
    and r0: "ibl scenario ''epid0'' = Some \<lparr>Episodes = []\<rparr>"
    and r2: "ibl scenario ''epid2'' = Some \<lparr>Episodes = [\<lparr>Versions = []\<rparr>]\<rparr>"
    by (simp_all add: scenario_def)
  from getVersionID_errors [OF c r0]
  obtain s0 where s0: "getVersionID scenario ''epid0'' = Inr (s0, Some NotFound)"
    by auto
  from getVersionID_errors [OF c r2]
  obtain s2 where s2: "getVersionID scenario ''epid2'' = Inr (s2, Some NoVersion)"
    by auto
  have "getVersionID scenario ''epid0'' = Inr (''nil'', Some NotFound)"
    using s0 by (simp add: getVersionID_def getConfiguration_def and_then_def scenario_def)
  moreover have "getVersionID scenario ''epid2'' = Inr (''nil'', Some NoVersion)"
    using s2 by (simp add: getVersionID_def getConfiguration_def and_then_def scenario_def)
  ultimately show ?thesis using c r0 by simp
qed

text \<open>
  Claim C9. For every segment-mapping response, \<^verbatim>\<open>getRecordIDs\<close> returns the record ID
  of every segment, in the order of the response; a response without segments gives
  the empty sequence, not an error.
\<close>

theorem getRecordIDs_all_segments:
  assumes "config_error w = None"
    and "playlister w versionID = Some res"
  shows "getRecordIDs w versionID = Inr (map RecordID (Segments res))
       \<and> (Segments res = [] \<longrightarrow> getRecordIDs w versionID = Inr [])"
  using assms
  by (simp add: getRecordIDs_def getConfiguration_def and_then_def recordIds_loop_map)

theorem getRecordIDs_all_segments_witness:
  "config_error scenario = None
   \<and> playlister scenario ''vpid1'' = Some \<lparr>Segments = [\<lparr>RecordID = ''rec1''\<rparr>]\<rparr>
   \<and> getRecordIDs scenario ''vpid1'' = Inr [''rec1'']"
  using getRecordIDs_all_segments
    [of scenario "''vpid1''" "\<lparr>Segments = [\<lparr>RecordID = ''rec1''\<rparr>]\<rparr>"]
  by (simp add: scenario_def)

end
